theory Spec2Isabelle
  imports Main "HOL-Library.Word"
begin

unbundle bit_operations_syntax

section \<open>Data model\<close>

subsection \<open>Library types: time, addresses, geolocation\<close>

text \<open>
  \<open>time.Time\<close> and \<open>time.Duration\<close> are counted in nanoseconds; the zero
  \<open>time.Time\<close> is 0. Durations in this program are far from the 64-bit limits, so
  no saturation is written out.
\<close>

type_synonym Time = int
type_synonym Duration = int

definition Second :: Duration where
  "Second = 1000000000"

definition Hour :: Duration where
  "Hour = 3600 * Second"

text \<open>
  \<open>net.IP\<close> in canonical form: the nil slice, a 4-byte address (an IPv4-mapped
  16-byte address counts as its 4-byte form, as \<open>To4\<close> makes it) or a 16-byte
  address. On canonical forms \<open>IP.Equal\<close> is equality. A mask
  (\<open>net.IPMask\<close>) is nil, 4 bytes or 16 bytes.
\<close>

datatype IP = IPnil | IPv4 "32 word" | IPv6 "128 word"

datatype IPMask = Masknil | Mask4 "32 word" | Mask6 "128 word"

definition IP_Equal :: "IP \<Rightarrow> IP \<Rightarrow> bool" where
  "IP_Equal a b = (a = b)"

fun IsLinkLocalUnicast :: "IP \<Rightarrow> bool" where
  "IsLinkLocalUnicast (IPv4 a) = (drop_bit 16 a = 0xA9FE)"
| "IsLinkLocalUnicast (IPv6 a) = (drop_bit 118 a = 0x3FA)"
| "IsLinkLocalUnicast IPnil = False"

text \<open>The reply of the geolocation service (\<open>ipinfo.IPInfo\<close>).\<close>

record IPInfo =
  IP :: string
  Hostname :: string
  City :: string
  Region :: string
  Country :: string
  Loc :: string
  Org :: string
  Postal :: string

definition IPInfo_zero :: IPInfo where
  "IPInfo_zero = \<lparr> IP = [], Hostname = [], City = [], Region = [], Country = [],
     Loc = [], Org = [], Postal = [] \<rparr>"

record IPNet =
  IP :: IP
  Mask :: IPMask

definition IPNet_zero :: IPNet where
  "IPNet_zero = \<lparr> IP = IPnil, Mask = Masknil \<rparr>"

text \<open>
  \<open>IPNet.Contains\<close>. The library first fits network number and mask together: a
  4-byte number takes a 4-byte mask, or the last four bytes of a 16-byte mask; a
  16-byte number takes a 16-byte mask; anything else gives an empty network number,
  which only the nil address matches. Then the address must have the number's length,
  and the masked bits are compared.
\<close>

fun Contains :: "IPNet \<Rightarrow> IP \<Rightarrow> bool" where
  "Contains n x =
     (case (IPNet.IP n, Mask n) of
        (IPv4 a, Mask4 m) \<Rightarrow> (case x of IPv4 b \<Rightarrow> a AND m = b AND m | _ \<Rightarrow> False)
      | (IPv4 a, Mask6 m) \<Rightarrow>
          (case x of IPv4 b \<Rightarrow> a AND ucast m = b AND ucast m | _ \<Rightarrow> False)
      | (IPv6 a, Mask6 m) \<Rightarrow> (case x of IPv6 b \<Rightarrow> a AND m = b AND m | _ \<Rightarrow> False)
      | _ \<Rightarrow> x = IPnil)"

subsection \<open>Port configuration and network status (package types)\<close>

record ProxyConfig =
  Proxies :: "string list"
  Exceptions :: string
  Pacfile :: string
  NetworkProxyEnable :: bool
  NetworkProxyURL :: string

definition ProxyConfig_zero :: ProxyConfig where
  "ProxyConfig_zero = \<lparr> Proxies = [], Exceptions = [], Pacfile = [],
     NetworkProxyEnable = False, NetworkProxyURL = [] \<rparr>"

type_synonym DhcpType = "8 word"

record NetworkPortConfig =
  IfName :: string
  Name :: string
  IsMgmt :: bool
  Free :: bool
  Dhcp :: DhcpType
  AddrSubnet :: string
  Gateway :: IP
  DomainName :: string
  NtpServer :: IP
  DnsServers :: "IP list"
  ProxyConfig :: ProxyConfig

record DevicePortConfig =
  Version :: nat
  Key :: string
  TimePriority :: Time
  Ports :: "NetworkPortConfig list"
  LastFailed :: Time
  LastSucceeded :: Time
  LastError :: string

text \<open>
  The candidate list. Candidates are value types copied into the list (spec, data
  model), so \<open>PortConfigList\<close> is a slice of structs, not of pointers.
\<close>

record DevicePortConfigList =
  CurrentIndex :: int
  PortConfigList :: "DevicePortConfig list"

record AddrInfo =
  Addr :: IP
  Geo :: IPInfo
  LastGeoTimestamp :: Time

definition AddrInfo_zero :: AddrInfo where
  "AddrInfo_zero = \<lparr> Addr = IPnil, Geo = IPInfo_zero, LastGeoTimestamp = 0 \<rparr>"

record NetworkPortStatus =
  IfName :: string
  Name :: string
  IsMgmt :: bool
  Free :: bool
  ProxyConfig :: ProxyConfig
  Dhcp :: DhcpType
  Subnet :: IPNet
  Gateway :: IP
  DomainName :: string
  NtpServer :: IP
  DnsServers :: "IP list"
  AddrInfoList :: "AddrInfo list"
  Error :: string
  ErrorTime :: Time

definition NetworkPortStatus_zero :: NetworkPortStatus where
  "NetworkPortStatus_zero = \<lparr> IfName = [], Name = [], IsMgmt = False, Free = False,
     ProxyConfig = ProxyConfig_zero, Dhcp = 0, Subnet = IPNet_zero, Gateway = IPnil,
     DomainName = [], NtpServer = IPnil, DnsServers = [], AddrInfoList = [],
     Error = [], ErrorTime = 0 \<rparr>"

record DeviceNetworkStatus =
  Version :: nat
  Testing :: bool
  Ports :: "NetworkPortStatus list"

definition DeviceNetworkStatus_zero :: DeviceNetworkStatus where
  "DeviceNetworkStatus_zero = \<lparr> Version = 0, Testing = False, Ports = [] \<rparr>"

section \<open>LED manager (cmd/ledmanager/ledmanager.go)\<close>

text \<open>
  The handler state. The channel \<open>countChange\<close> is kept as the list of the values sent
  on it, oldest first; the subscriptions carry no data of their own.
\<close>

record ledManagerContext =
  countChange :: "int list"
  ledCounter :: int
  deviceNetworkStatus :: DeviceNetworkStatus
  usableAddressCount :: int
  derivedLedCounter :: int

definition updateDerivedLedCounter :: "ledManagerContext \<Rightarrow> ledManagerContext" where
  "updateDerivedLedCounter ctx =
     (let ctx1 =
        (if usableAddressCount ctx = 0 then ctx\<lparr>derivedLedCounter := 1\<rparr>
         else if ledCounter ctx < 2 then ctx\<lparr>derivedLedCounter := 2\<rparr>
         else ctx\<lparr>derivedLedCounter := ledCounter ctx\<rparr>)
      in ctx1\<lparr>countChange := countChange ctx1 @ [derivedLedCounter ctx1]\<rparr>)"

text \<open>
  \<open>handleDNSModify\<close>. The counter of usable addresses
  (\<open>types.CountLocalAddrAnyNoLinkLocal\<close>) is a parameter.
\<close>

definition handleDNSModify ::
  "(DeviceNetworkStatus \<Rightarrow> int) \<Rightarrow> ledManagerContext \<Rightarrow> string \<Rightarrow> DeviceNetworkStatus
     \<Rightarrow> ledManagerContext" where
  "handleDNSModify CountLocalAddrAnyNoLinkLocal ctx key status =
     (if key \<noteq> ''global'' then ctx
      else if Testing status then ctx
      else if deviceNetworkStatus ctx = status then ctx
      else
        (let ctx1 = ctx\<lparr>deviceNetworkStatus := status\<rparr>;
             newAddrCount = CountLocalAddrAnyNoLinkLocal (deviceNetworkStatus ctx1)
         in if (usableAddressCount ctx1 = 0 \<and> newAddrCount \<noteq> 0) \<or>
               (usableAddressCount ctx1 \<noteq> 0 \<and> newAddrCount = 0)
            then updateDerivedLedCounter (ctx1\<lparr>usableAddressCount := newAddrCount\<rparr>)
            else ctx1))"

section \<open>Interface directory (packages zedrouter and devicenetwork)\<close>

record linkNameType =
  linkName :: string
  linkType :: string

text \<open>The package-level maps are passed in and returned.\<close>

definition IfindexToNameDel ::
  "(int \<rightharpoonup> linkNameType) \<Rightarrow> int \<Rightarrow> string \<Rightarrow> (int \<rightharpoonup> linkNameType) \<times> bool" where
  "IfindexToNameDel ifindexToName index lname =
     (case ifindexToName index of
        None \<Rightarrow> (ifindexToName, False)
      | Some m \<Rightarrow>
          if linkName m \<noteq> lname then (ifindexToName(index := None), True)
          else (ifindexToName(index := None), True))"

text \<open>The older variant of the map holds the bare name.\<close>

definition IfindexToNameDel_uplink ::
  "(int \<rightharpoonup> string) \<Rightarrow> int \<Rightarrow> string \<Rightarrow> (int \<rightharpoonup> string) \<times> bool" where
  "IfindexToNameDel_uplink ifindexToName index name =
     (case ifindexToName index of
        None \<Rightarrow> (ifindexToName, False)
      | Some m \<Rightarrow>
          if m \<noteq> name then (ifindexToName(index := None), True)
          else (ifindexToName(index := None), True))"

text \<open>
  The test of \<open>IfindexToAddrsAdd\<close> and \<open>IfindexToAddrsDel\<close> for "the same entry":
  the loop body's condition.
\<close>

definition sameAddr :: "IPNet \<Rightarrow> IPNet \<Rightarrow> bool" where
  "sameAddr a addr =
     (IP_Equal (IPNet.IP a) (IPNet.IP addr) \<and> Contains a (IPNet.IP addr) \<and> Contains addr (IPNet.IP a))"

fun findAddr :: "IPNet list \<Rightarrow> IPNet \<Rightarrow> bool" where
  "findAddr [] addr = False"
| "findAddr (a # addrs) addr = (if sameAddr a addr then True else findAddr addrs addr)"

definition IfindexToAddrsAdd ::
  "(int \<rightharpoonup> IPNet list) \<Rightarrow> int \<Rightarrow> IPNet \<Rightarrow> (int \<rightharpoonup> IPNet list) \<times> bool" where
  "IfindexToAddrsAdd ifindexToAddrs index addr =
     (case ifindexToAddrs index of
        None \<Rightarrow> (ifindexToAddrs(index \<mapsto> [] @ [addr]), True)
      | Some addrs \<Rightarrow>
          (let found = findAddr addrs addr
           in if \<not> found then (ifindexToAddrs(index \<mapsto> addrs @ [addr]), \<not> found)
              else (ifindexToAddrs, \<not> found)))"

text \<open>The error of \<open>IfindexToAddrs\<close> is kept without the number it prints.\<close>

definition IfindexToAddrs :: "(int \<rightharpoonup> IPNet list) \<Rightarrow> int \<Rightarrow> string + IPNet list" where
  "IfindexToAddrs ifindexToAddrs index =
     (case ifindexToAddrs index of
        None \<Rightarrow> Inl ''Unknown ifindex''
      | Some addrs \<Rightarrow> Inr addrs)"

section \<open>Network interface manager (cmd/nim/nim.go)\<close>

subsection \<open>Timers\<close>

text \<open>
  A \<open>time.Timer\<close>: the instant at which it sends on its channel, and whether it was
  stopped before. A stopped timer sends nothing.
\<close>

record Timer =
  fire_at :: Time
  stopped :: bool

definition NewTimer :: "Time \<Rightarrow> Duration \<Rightarrow> Timer" where
  "NewTimer now d = \<lparr> fire_at = now + d, stopped = False \<rparr>"

definition Stop :: "Timer \<Rightarrow> Timer" where
  "Stop t = t\<lparr>stopped := True\<rparr>"

definition delivers :: "Timer \<Rightarrow> Time \<Rightarrow> bool" where
  "delivers t at = (\<not> stopped t \<and> fire_at t \<le> at)"

subsection \<open>The engine's context (devicenetwork.DeviceNetworkContext)\<close>

record DPCPending =
  Inprogress :: bool
  PendDNS :: DeviceNetworkStatus
  PendTimer :: Timer

record DeviceNetworkContext =
  DevicePortConfigList :: DevicePortConfigList
  DeviceNetworkStatus :: DeviceNetworkStatus
  Pending :: DPCPending
  NetworkTestTimer :: Timer
  NetworkTestBetterTimer :: Timer
  NextDPCIndex :: int
  CloudConnectivityWorks :: bool
  DPCTestDuration :: nat
  NetworkTestInterval :: nat
  NetworkTestBetterInterval :: nat

text \<open>
  What stops a handler: \<open>log.Fatal\<close> ends the process, an index out of range panics.
\<close>

datatype failure = Fatal | IndexOutOfRange

subsection \<open>The connectivity probe (devicenetwork.VerifyDeviceNetworkStatus)\<close>

text \<open>
  The files and the network the probe reads: the content of \<open>/config/server\<close> (if
  readable), whether a TLS configuration can be made from the device certificate,
  whether the onboarding certificate loads, whether a TLS configuration can be made
  from it, and \<open>zedcloud.VerifyAllIntf\<close> (an error, or whether the cloud was reached).
\<close>

record probeEnv =
  serverFile :: "string option"
  GetTlsConfig_device :: bool
  LoadX509KeyPair_onboard :: bool
  GetTlsConfig_onboard :: bool
  VerifyAllIntf :: "DeviceNetworkStatus \<Rightarrow> string \<Rightarrow> int \<Rightarrow> int \<Rightarrow> string + bool"

text \<open>
  \<open>strings.TrimSpace\<close> on the bytes of a string: the UTF-8 encodings of the
  characters that \<open>unicode.IsSpace\<close> accepts (tab, line feed, vertical tab, form
  feed, carriage return, space, U+0085, U+00A0, U+1680, U+2000 to U+200A, U+2028,
  U+2029, U+202F, U+205F, U+3000) are taken off both ends.
\<close>

definition spaceEncodings :: "string list" where
  "spaceEncodings =
     [[CHR 0x09], [CHR 0x0A], [CHR 0x0B], [CHR 0x0C], [CHR 0x0D], [CHR 0x20],
      [CHR 0xC2, CHR 0x85], [CHR 0xC2, CHR 0xA0], [CHR 0xE1, CHR 0x9A, CHR 0x80],
      [CHR 0xE2, CHR 0x80, CHR 0x80], [CHR 0xE2, CHR 0x80, CHR 0x81],
      [CHR 0xE2, CHR 0x80, CHR 0x82], [CHR 0xE2, CHR 0x80, CHR 0x83],
      [CHR 0xE2, CHR 0x80, CHR 0x84], [CHR 0xE2, CHR 0x80, CHR 0x85],
      [CHR 0xE2, CHR 0x80, CHR 0x86], [CHR 0xE2, CHR 0x80, CHR 0x87],
      [CHR 0xE2, CHR 0x80, CHR 0x88], [CHR 0xE2, CHR 0x80, CHR 0x89],
      [CHR 0xE2, CHR 0x80, CHR 0x8A], [CHR 0xE2, CHR 0x80, CHR 0xA8],
      [CHR 0xE2, CHR 0x80, CHR 0xA9], [CHR 0xE2, CHR 0x80, CHR 0xAF],
      [CHR 0xE2, CHR 0x81, CHR 0x9F], [CHR 0xE3, CHR 0x80, CHR 0x80]]"

function dropEncodings :: "string list \<Rightarrow> string \<Rightarrow> string" where
  "dropEncodings es s =
     (case find (\<lambda>e. e \<noteq> [] \<and> take (length e) s = e) es of
        None \<Rightarrow> s
      | Some e \<Rightarrow> dropEncodings es (drop (length e) s))"
  by pat_completeness auto
termination
proof (relation "measure (\<lambda>(es, s). length s)")
  show "wf (measure (\<lambda>(es, s). length s))"
    by simp
next
  fix es :: "string list" and s e :: string
  assume "find (\<lambda>e. e \<noteq> [] \<and> take (length e) s = e) es = Some e"
  then have e: "e \<noteq> []" "take (length e) s = e"
    by (auto simp: find_Some_iff)
  from e(2) have "length (take (length e) s) = length e"
    by simp
  then have "length e \<le> length s"
    by simp
  with e show "((es, drop (length e) s), (es, s)) \<in> measure (\<lambda>(es, s). length s)"
    by (cases e) auto
qed

definition TrimSpace :: "string \<Rightarrow> string" where
  "TrimSpace s =
     rev (dropEncodings (map rev spaceEncodings) (rev (dropEncodings spaceEncodings s)))"

definition VerifyDeviceNetworkStatus ::
  "probeEnv \<Rightarrow> DeviceNetworkStatus \<Rightarrow> int \<Rightarrow> failure + bool" where
  "VerifyDeviceNetworkStatus env status retryCount =
     (case serverFile env of
        None \<Rightarrow> Inl Fatal
      | Some server \<Rightarrow>
          (let serverNameAndPort = TrimSpace server;
               testUrl = serverNameAndPort @ ''/api/v1/edgedevice/ping''
           in if \<not> GetTlsConfig_device env \<and> \<not> LoadX509KeyPair_onboard env then Inr False
              else if \<not> GetTlsConfig_device env \<and> \<not> GetTlsConfig_onboard env then Inr False
              else (case VerifyAllIntf env status testUrl retryCount 1 of
                      Inl err \<Rightarrow> Inr False
                    | Inr cloudReachable \<Rightarrow> if cloudReachable then Inr True else Inr False)))"

subsection \<open>The periodic connectivity test\<close>

text \<open>
  \<open>tryDeviceConnectivityToCloud\<close>. \<open>devicenetwork.RestartVerify\<close> is a parameter; the
  third component of the result lists the calls made to it (the caller strings), in
  order. \<open>cur\<close> is the source's local variable: a copy of the list element, which
  gets the time and is not stored back. A negative \<open>NextDPCIndex\<close> passes the
  bound check and panics at the index expression.
\<close>

definition tryDeviceConnectivityToCloud ::
  "(string \<Rightarrow> DeviceNetworkContext \<Rightarrow> DeviceNetworkContext) \<Rightarrow> probeEnv \<Rightarrow> Time
     \<Rightarrow> DeviceNetworkContext \<Rightarrow> failure + (DeviceNetworkContext \<times> bool \<times> string list)" where
  "tryDeviceConnectivityToCloud RestartVerify env now ctx =
     (case VerifyDeviceNetworkStatus env (DeviceNetworkStatus ctx) 1 of
        Inl f \<Rightarrow> Inl f
      | Inr pass \<Rightarrow>
          if pass then
            (let done = Inr (ctx\<lparr>CloudConnectivityWorks := True,
                                NetworkTestTimer :=
                                  NewTimer now (int (NetworkTestInterval ctx) * Second)\<rparr>,
                             True, [])
             in if NextDPCIndex ctx < int (length (PortConfigList (DevicePortConfigList ctx)))
                then (if NextDPCIndex ctx < 0 then Inl IndexOutOfRange
                      else (let cur = PortConfigList (DevicePortConfigList ctx)
                                        ! nat (NextDPCIndex ctx);
                                cur = cur\<lparr>LastSucceeded := now\<rparr>
                            in done))
                else done)
          else if \<not> CloudConnectivityWorks ctx then
            (if Inprogress (Pending ctx) then Inr (ctx, False, [])
             else Inr (RestartVerify ''tryDeviceConnectivityToCloud'' ctx, False,
                       [''tryDeviceConnectivityToCloud'']))
          else
            (let ctx1 = ctx\<lparr>NetworkTestTimer :=
                           NewTimer now (int (NetworkTestInterval ctx) * Second)\<rparr>;
                 ctx2 = ctx1\<lparr>CloudConnectivityWorks := False\<rparr>
             in Inr (ctx2, False, [])))"

subsection \<open>The test-better timer in \<open>Run\<close>\<close>

text \<open>
  The set-up of the timer from the configured interval (lines 298 to 309 of
  \<open>Run\<close>).
\<close>

definition Run_setup_NetworkTestBetterTimer ::
  "Time \<Rightarrow> nat \<Rightarrow> DeviceNetworkContext \<Rightarrow> DeviceNetworkContext" where
  "Run_setup_NetworkTestBetterTimer now globalConfig_NetworkTestBetterInterval dnc =
     (let dnc1 = dnc\<lparr>NetworkTestBetterInterval := globalConfig_NetworkTestBetterInterval\<rparr>
      in if NetworkTestBetterInterval dnc1 = 0
         then dnc1\<lparr>NetworkTestBetterTimer := Stop (NewTimer now Hour)\<rparr>
         else dnc1\<lparr>NetworkTestBetterTimer :=
                 NewTimer now (int (NetworkTestBetterInterval dnc1) * Second)\<rparr>)"

text \<open>
  The \<open>select\<close> case of the timer's channel (the same in both loops of \<open>Run\<close>);
  \<open>ok\<close> is false when the channel was closed. The second component lists the calls to
  \<open>RestartVerify\<close>.
\<close>

definition Run_case_NetworkTestBetterTimer ::
  "(string \<Rightarrow> DeviceNetworkContext \<Rightarrow> DeviceNetworkContext) \<Rightarrow> bool
     \<Rightarrow> DeviceNetworkContext \<Rightarrow> DeviceNetworkContext \<times> string list" where
  "Run_case_NetworkTestBetterTimer RestartVerify ok dnc =
     (if \<not> ok then (dnc, [])
      else if NextDPCIndex dnc = 0 then (dnc, [])
      else (RestartVerify ''NetworkTestBetterTimer'' dnc, [''NetworkTestBetterTimer'']))"

section \<open>Status synthesis (package devicenetwork)\<close>

text \<open>
  What \<open>MakeDeviceNetworkStatus\<close> reads from outside: the subnet that
  \<open>net.ParseCIDR\<close> returns (none on a parse error), the ifindex of an interface name
  (none when \<open>IfnameToIndex\<close> returns an error), the package's map from ifindex to
  addresses, the DHCP and proxy look-ups, each returning the port as it leaves it and
  its error if any, the geolocation service (none on an error), and the constant
  \<open>types.DPCIsMgmt\<close>. The clock is a separate argument: every \<open>time.Now()\<close> of one
  call reads the same instant.
\<close>

record osEnv =
  ParseCIDR :: "string \<Rightarrow> IPNet option"
  IfnameToIndex :: "string \<Rightarrow> int option"
  ifindexToAddrs :: "int \<rightharpoonup> IPNet list"
  GetDhcpInfo :: "NetworkPortStatus \<Rightarrow> NetworkPortStatus \<times> string option"
  CheckAndGetNetworkProxy ::
    "DeviceNetworkStatus \<Rightarrow> NetworkPortStatus \<Rightarrow> NetworkPortStatus \<times> string option"
  MyIPWithOptions :: "IP \<Rightarrow> IPInfo option"
  DPCIsMgmt :: nat

fun lookupAddrInfo :: "AddrInfo list \<Rightarrow> IP \<Rightarrow> AddrInfo option" where
  "lookupAddrInfo [] addr = None"
| "lookupAddrInfo (ai # ais) addr =
     (if IP_Equal (Addr ai) addr then Some ai else lookupAddrInfo ais addr)"

fun lookupPorts :: "NetworkPortStatus list \<Rightarrow> string \<Rightarrow> IP \<Rightarrow> AddrInfo option" where
  "lookupPorts [] ifname addr = None"
| "lookupPorts (u # us) ifname addr =
     (if IfName u \<noteq> ifname then lookupPorts us ifname addr
      else (case lookupAddrInfo (AddrInfoList u) addr of
              Some ai \<Rightarrow> Some ai
            | None \<Rightarrow> lookupPorts us ifname addr))"

definition lookupPortStatusAddr :: "DeviceNetworkStatus \<Rightarrow> string \<Rightarrow> IP \<Rightarrow> AddrInfo option" where
  "lookupPortStatusAddr status ifname addr = lookupPorts (Ports status) ifname addr"

text \<open>\<open>UpdateDeviceNetworkGeo\<close>: the body of the inner loop, of the outer loop, and the whole.\<close>

definition UpdateDeviceNetworkGeo_addr ::
  "osEnv \<Rightarrow> Time \<Rightarrow> Duration \<Rightarrow> AddrInfo \<Rightarrow> AddrInfo \<times> bool" where
  "UpdateDeviceNetworkGeo_addr env now timelimit ai =
     (if IsLinkLocalUnicast (Addr ai) then (ai, False)
      else if now - LastGeoTimestamp ai < timelimit then (ai, False)
      else (case MyIPWithOptions env (Addr ai) of
              None \<Rightarrow> (ai, False)
            | Some info \<Rightarrow>
                if IPInfo.IP info = IPInfo.IP (Geo ai) then (ai, False)
                else (ai\<lparr>Geo := info, LastGeoTimestamp := now\<rparr>, True)))"

definition UpdateDeviceNetworkGeo_port ::
  "osEnv \<Rightarrow> Time \<Rightarrow> Duration \<Rightarrow> nat \<Rightarrow> NetworkPortStatus \<Rightarrow> NetworkPortStatus \<times> bool" where
  "UpdateDeviceNetworkGeo_port env now timelimit version u =
     (if version \<ge> DPCIsMgmt env \<and> \<not> IsMgmt u then (u, False)
      else (let rs = map (UpdateDeviceNetworkGeo_addr env now timelimit) (AddrInfoList u)
            in (u\<lparr>AddrInfoList := map fst rs\<rparr>, list_ex snd rs)))"

definition UpdateDeviceNetworkGeo ::
  "osEnv \<Rightarrow> Time \<Rightarrow> Duration \<Rightarrow> DeviceNetworkStatus \<Rightarrow> DeviceNetworkStatus \<times> bool" where
  "UpdateDeviceNetworkGeo env now timelimit globalStatus =
     (let rs = map (UpdateDeviceNetworkGeo_port env now timelimit (Version globalStatus))
                 (Ports globalStatus)
      in (globalStatus\<lparr>Ports := map fst rs\<rparr>, list_ex snd rs))"

text \<open>
  \<open>MakeDeviceNetworkStatus\<close>, first loop. The fields set from the configuration:
\<close>

definition setFromConfig :: "osEnv \<Rightarrow> NetworkPortConfig \<Rightarrow> NetworkPortStatus \<Rightarrow> NetworkPortStatus" where
  "setFromConfig env u p =
     (let p0 = p\<lparr>IfName := NetworkPortConfig.IfName u, Name := NetworkPortConfig.Name u,
                  IsMgmt := NetworkPortConfig.IsMgmt u, Free := NetworkPortConfig.Free u,
                  ProxyConfig := NetworkPortConfig.ProxyConfig u,
                  Dhcp := NetworkPortConfig.Dhcp u\<rparr>;
          p1 = (case ParseCIDR env (AddrSubnet u) of
                  Some subnet \<Rightarrow> p0\<lparr>Subnet := subnet\<rparr>
                | None \<Rightarrow> p0)
      in p1\<lparr>Gateway := NetworkPortConfig.Gateway u,
             DomainName := NetworkPortConfig.DomainName u,
             NtpServer := NetworkPortConfig.NtpServer u,
             DnsServers := NetworkPortConfig.DnsServers u\<rparr>)"

text \<open>
  What follows a look-up (\<open>GetDhcpInfo\<close>, \<open>CheckAndGetNetworkProxy\<close>): on an error
  the port gets the error string and the time.
\<close>

definition recordError ::
  "string \<Rightarrow> Time \<Rightarrow> NetworkPortStatus \<times> string option \<Rightarrow> NetworkPortStatus" where
  "recordError what now r =
     (case r of
        (p, Some err) \<Rightarrow> p\<lparr>Error := what @ err, ErrorTime := now\<rparr>
      | (p, None) \<Rightarrow> p)"

text \<open>
  What iteration \<open>ix\<close> leaves in \<open>globalStatus.Ports[ix]\<close>. An unknown interface name
  ends the iteration (\<open>continue\<close>) after the fields set from the configuration: the
  error made there goes to the loop body's own \<open>err\<close> and is dropped.
\<close>

definition MakeDeviceNetworkStatus_port ::
  "osEnv \<Rightarrow> Time \<Rightarrow> NetworkPortConfig \<Rightarrow> DeviceNetworkStatus \<Rightarrow> nat \<Rightarrow> NetworkPortStatus" where
  "MakeDeviceNetworkStatus_port env now u globalStatus ix =
     (let p2 = setFromConfig env u (Ports globalStatus ! ix)
      in case IfnameToIndex env (NetworkPortConfig.IfName u) of
           None \<Rightarrow> p2
         | Some ifindex \<Rightarrow>
             (let addrs = (case IfindexToAddrs (ifindexToAddrs env) ifindex of
                             Inl err \<Rightarrow> []
                           | Inr addrs \<Rightarrow> addrs);
                  p3 = p2\<lparr>AddrInfoList :=
                          map (\<lambda>addr. AddrInfo_zero\<lparr>Addr := IPNet.IP addr\<rparr>) addrs\<rparr>;
                  p4 = recordError ''GetDhcpInfo failed '' now (GetDhcpInfo env p3)
              in recordError ''GetNetworkProxy failed '' now
                   (CheckAndGetNetworkProxy env
                      (globalStatus\<lparr>Ports := (Ports globalStatus)[ix := p4]\<rparr>) p4)))"

definition MakeDeviceNetworkStatus_step ::
  "osEnv \<Rightarrow> Time \<Rightarrow> DevicePortConfig \<Rightarrow> nat \<Rightarrow> DeviceNetworkStatus \<Rightarrow> DeviceNetworkStatus" where
  "MakeDeviceNetworkStatus_step env now globalConfig ix globalStatus =
     globalStatus\<lparr>Ports := (Ports globalStatus)
        [ix := MakeDeviceNetworkStatus_port env now (DevicePortConfig.Ports globalConfig ! ix)
                 globalStatus ix]\<rparr>"

definition MakeDeviceNetworkStatus_ports ::
  "osEnv \<Rightarrow> Time \<Rightarrow> DevicePortConfig \<Rightarrow> DeviceNetworkStatus" where
  "MakeDeviceNetworkStatus_ports env now globalConfig =
     fold (MakeDeviceNetworkStatus_step env now globalConfig)
       [0 ..< length (DevicePortConfig.Ports globalConfig)]
       (DeviceNetworkStatus_zero
          \<lparr>Version := DevicePortConfig.Version globalConfig,
           Ports := replicate (length (DevicePortConfig.Ports globalConfig))
                      NetworkPortStatus_zero\<rparr>)"

text \<open>Second loop: geolocation of an address found in the old status is kept.\<close>

definition preserveGeo_addr :: "DeviceNetworkStatus \<Rightarrow> string \<Rightarrow> AddrInfo \<Rightarrow> AddrInfo" where
  "preserveGeo_addr oldStatus ifname ai =
     (case lookupPortStatusAddr oldStatus ifname (Addr ai) of
        None \<Rightarrow> ai
      | Some oai \<Rightarrow> ai\<lparr>Geo := Geo oai, LastGeoTimestamp := LastGeoTimestamp oai\<rparr>)"

definition preserveGeo_port :: "DeviceNetworkStatus \<Rightarrow> NetworkPortStatus \<Rightarrow> NetworkPortStatus" where
  "preserveGeo_port oldStatus u =
     u\<lparr>AddrInfoList := map (preserveGeo_addr oldStatus (IfName u)) (AddrInfoList u)\<rparr>"

definition preserveGeo :: "DeviceNetworkStatus \<Rightarrow> DeviceNetworkStatus \<Rightarrow> DeviceNetworkStatus" where
  "preserveGeo oldStatus globalStatus =
     globalStatus\<lparr>Ports := map (preserveGeo_port oldStatus) (Ports globalStatus)\<rparr>"

text \<open>
  The whole function. The error it returns is the outer \<open>err\<close>, which no statement
  assigns: the loop body declares its own \<open>err\<close>.
\<close>

definition MakeDeviceNetworkStatus ::
  "osEnv \<Rightarrow> Time \<Rightarrow> DevicePortConfig \<Rightarrow> DeviceNetworkStatus
     \<Rightarrow> DeviceNetworkStatus \<times> string option" where
  "MakeDeviceNetworkStatus env now globalConfig oldStatus =
     (let globalStatus = MakeDeviceNetworkStatus_ports env now globalConfig;
          globalStatus = preserveGeo oldStatus globalStatus;
          globalStatus = fst (UpdateDeviceNetworkGeo env now Second globalStatus)
      in (globalStatus, None))"

text \<open>A status with the geolocation of every address blanked.\<close>

definition withoutGeo :: "DeviceNetworkStatus \<Rightarrow> DeviceNetworkStatus" where
  "withoutGeo status =
     status\<lparr>Ports := map (\<lambda>u. u\<lparr>AddrInfoList :=
        map (\<lambda>ai. ai\<lparr>Geo := IPInfo_zero, LastGeoTimestamp := 0\<rparr>) (AddrInfoList u)\<rparr>)
        (Ports status)\<rparr>"

subsection \<open>Sample states\<close>

definition sample_dpc :: DevicePortConfig where
  "sample_dpc = \<lparr> DevicePortConfig.Version = 1, Key = ''zedagent'',
     TimePriority = 2 * Second, DevicePortConfig.Ports = [],
     LastFailed = 0, LastSucceeded = 0, LastError = [] \<rparr>"

definition sample_dnc :: DeviceNetworkContext where
  "sample_dnc = \<lparr> DevicePortConfigList = \<lparr> CurrentIndex = 0, PortConfigList = [sample_dpc] \<rparr>,
     DeviceNetworkStatus = DeviceNetworkStatus_zero,
     Pending = \<lparr> Inprogress = False, PendDNS = DeviceNetworkStatus_zero,
                 PendTimer = Stop (NewTimer 0 (30 * Second)) \<rparr>,
     NetworkTestTimer = NewTimer 0 (300 * Second),
     NetworkTestBetterTimer = NewTimer 0 (600 * Second),
     NextDPCIndex = 0, CloudConnectivityWorks = True,
     DPCTestDuration = 30, NetworkTestInterval = 300, NetworkTestBetterInterval = 600 \<rparr>"

definition sample_probe :: "bool \<Rightarrow> probeEnv" where
  "sample_probe reachable = \<lparr> serverFile = Some ''zedcloud.example.com:443'',
     GetTlsConfig_device = True, LoadX509KeyPair_onboard = True, GetTlsConfig_onboard = True,
     VerifyAllIntf = (\<lambda>status url retryCount delay. Inr reachable) \<rparr>"

definition sample_RestartVerify :: "string \<Rightarrow> DeviceNetworkContext \<Rightarrow> DeviceNetworkContext" where
  "sample_RestartVerify caller ctx =
     ctx\<lparr>NextDPCIndex := 0, Pending := (Pending ctx)\<lparr>Inprogress := True\<rparr>\<rparr>"

definition sample_os :: osEnv where
  "sample_os = \<lparr> ParseCIDR = (\<lambda>s. None),
     IfnameToIndex = (\<lambda>n. if n = ''eth0'' then Some 2 else None),
     ifindexToAddrs = [2 \<mapsto> [\<lparr> IP = IPv4 0x0A000001, Mask = Mask4 0xFFFFFF00 \<rparr>]],
     GetDhcpInfo = (\<lambda>p. (p, None)),
     CheckAndGetNetworkProxy = (\<lambda>s p. (p, None)),
     MyIPWithOptions = (\<lambda>a. None),
     DPCIsMgmt = 1 \<rparr>"

definition sample_port :: "string \<Rightarrow> NetworkPortConfig" where
  "sample_port ifname = \<lparr> NetworkPortConfig.IfName = ifname, NetworkPortConfig.Name = ifname,
     NetworkPortConfig.IsMgmt = True, NetworkPortConfig.Free = True, NetworkPortConfig.Dhcp = 4,
     AddrSubnet = [], NetworkPortConfig.Gateway = IPnil, NetworkPortConfig.DomainName = [],
     NetworkPortConfig.NtpServer = IPnil, NetworkPortConfig.DnsServers = [],
     NetworkPortConfig.ProxyConfig = ProxyConfig_zero \<rparr>"

definition sample_config :: "string list \<Rightarrow> DevicePortConfig" where
  "sample_config ifnames = sample_dpc\<lparr>DevicePortConfig.Ports := map sample_port ifnames\<rparr>"

definition sample_geo :: "string \<Rightarrow> IPInfo" where
  "sample_geo ip = IPInfo_zero\<lparr>IPInfo.IP := ip\<rparr>"

definition sample_old :: DeviceNetworkStatus where
  "sample_old = DeviceNetworkStatus_zero\<lparr>Version := 1, Ports :=
     [NetworkPortStatus_zero\<lparr>IfName := ''eth0'', Name := ''eth0'', IsMgmt := True,
        AddrInfoList := [\<lparr> Addr = IPv4 0x0A000001, Geo = sample_geo ''192.0.2.1'',
                           LastGeoTimestamp = 0 \<rparr>]\<rparr>]\<rparr>"



section \<open>Properties\<close>

subsection \<open>LED manager\<close>

text \<open>
  C10. After \<open>updateDerivedLedCounter\<close> the derived blink counter is at least 1; it is 1
  exactly when the usable-address count is zero, and at least 2 when there is a usable
  address. The value sent to the blinker is that counter.
\<close>

theorem updateDerivedLedCounter_at_least_one:
  "1 \<le> derivedLedCounter (updateDerivedLedCounter ctx) \<and>
   (derivedLedCounter (updateDerivedLedCounter ctx) = 1 \<longleftrightarrow> usableAddressCount ctx = 0) \<and>
   (usableAddressCount ctx \<noteq> 0 \<longrightarrow> 2 \<le> derivedLedCounter (updateDerivedLedCounter ctx)) \<and>
   derivedLedCounter (updateDerivedLedCounter ctx) \<noteq> 0 \<and>
   countChange (updateDerivedLedCounter ctx) =
     countChange ctx @ [derivedLedCounter (updateDerivedLedCounter ctx)]"
  by (simp add: updateDerivedLedCounter_def Let_def)

theorem updateDerivedLedCounter_at_least_one_witness:
  "usableAddressCount \<lparr> countChange = [], ledCounter = 4,
       deviceNetworkStatus = DeviceNetworkStatus_zero, usableAddressCount = 3,
       derivedLedCounter = 0 \<rparr> \<noteq> 0 \<and>
   derivedLedCounter (updateDerivedLedCounter \<lparr> countChange = [], ledCounter = 4,
       deviceNetworkStatus = DeviceNetworkStatus_zero, usableAddressCount = 3,
       derivedLedCounter = 0 \<rparr>) = 4"
  using updateDerivedLedCounter_at_least_one [of "\<lparr> countChange = [], ledCounter = 4,
       deviceNetworkStatus = DeviceNetworkStatus_zero, usableAddressCount = 3,
       derivedLedCounter = 0 \<rparr>"]
  by (simp add: updateDerivedLedCounter_def Let_def)

text \<open>
  C9. A status update marked \<open>Testing\<close> leaves the handler state as it was: the stored
  status, the usable-address count and the derived counter are unchanged and nothing is
  sent on the blink-count channel.
\<close>

theorem handleDNSModify_ignores_Testing:
  "Testing status \<Longrightarrow> handleDNSModify cnt ctx key status = ctx"
  by (simp add: handleDNSModify_def)

theorem handleDNSModify_ignores_Testing_witness:
  "Testing (DeviceNetworkStatus_zero\<lparr>Testing := True\<rparr>) \<and>
   handleDNSModify (\<lambda>s. 5) \<lparr> countChange = [], ledCounter = 0,
       deviceNetworkStatus = DeviceNetworkStatus_zero, usableAddressCount = 0,
       derivedLedCounter = 0 \<rparr> ''global'' (DeviceNetworkStatus_zero\<lparr>Testing := True\<rparr>)
     = \<lparr> countChange = [], ledCounter = 0,
       deviceNetworkStatus = DeviceNetworkStatus_zero, usableAddressCount = 0,
       derivedLedCounter = 0 \<rparr>"
  using handleDNSModify_ignores_Testing [of "DeviceNetworkStatus_zero\<lparr>Testing := True\<rparr>"
      "\<lambda>s. 5" "\<lparr> countChange = [], ledCounter = 0,
       deviceNetworkStatus = DeviceNetworkStatus_zero, usableAddressCount = 0,
       derivedLedCounter = 0 \<rparr>" "''global''"]
  by simp

subsection \<open>Interface directory\<close>

text \<open>
  C8. \<open>IfindexToNameDel\<close> removes the entry of a known index and returns true whatever
  name is given; for an unknown index it returns false and the map is unchanged. Both
  variants of the map behave so.
\<close>

theorem IfindexToNameDel_regardless_of_name:
  "(index \<in> dom m \<longrightarrow> IfindexToNameDel m index lname = (m(index := None), True)) \<and>
   (index \<notin> dom m \<longrightarrow> IfindexToNameDel m index lname = (m, False)) \<and>
   (index \<in> dom m' \<longrightarrow> IfindexToNameDel_uplink m' index lname = (m'(index := None), True)) \<and>
   (index \<notin> dom m' \<longrightarrow> IfindexToNameDel_uplink m' index lname = (m', False))"
  by (auto simp: IfindexToNameDel_def IfindexToNameDel_uplink_def split: option.splits)

theorem IfindexToNameDel_regardless_of_name_witness:
  "(2::int) \<in> dom [2 \<mapsto> \<lparr> linkName = ''eth0'', linkType = ''device'' \<rparr>] \<and>
   (2::int) \<notin> dom (Map.empty :: int \<rightharpoonup> string) \<and>
   snd (IfindexToNameDel [2 \<mapsto> \<lparr> linkName = ''eth0'', linkType = ''device'' \<rparr>] 2 ''vif1'') \<and>
   fst (IfindexToNameDel [2 \<mapsto> \<lparr> linkName = ''eth0'', linkType = ''device'' \<rparr>] 2 ''vif1'') 2 = None \<and>
   IfindexToNameDel_uplink Map.empty 2 ''vif1'' = (Map.empty, False)"
  using IfindexToNameDel_regardless_of_name
    [of 2 "[2 \<mapsto> \<lparr> linkName = ''eth0'', linkType = ''device'' \<rparr>]" "''vif1''" Map.empty]
  by simp

lemma findAddr_iff: "findAddr addrs addr \<longleftrightarrow> (\<exists>a \<in> set addrs. sameAddr a addr)"
  by (induction addrs) auto

text \<open>
  C7 as stated fails: with 10.0.0.1/24 stored, adding 10.0.0.2/24 (each network contains
  the other's address, so the containment is mutual) appends the address and returns
  true, because the loop also asks for equal IPs.
\<close>

theorem IfindexToAddrsAdd_mutual_containment_counterexample:
  "Contains \<lparr> IP = IPv4 0x0A000001, Mask = Mask4 0xFFFFFF00 \<rparr> (IPv4 0x0A000002) \<and>
   Contains \<lparr> IP = IPv4 0x0A000002, Mask = Mask4 0xFFFFFF00 \<rparr> (IPv4 0x0A000001) \<and>
   IfindexToAddrsAdd [1 \<mapsto> [\<lparr> IP = IPv4 0x0A000001, Mask = Mask4 0xFFFFFF00 \<rparr>]] 1
       \<lparr> IP = IPv4 0x0A000002, Mask = Mask4 0xFFFFFF00 \<rparr>
     = ([1 \<mapsto> [\<lparr> IP = IPv4 0x0A000001, Mask = Mask4 0xFFFFFF00 \<rparr>,
                 \<lparr> IP = IPv4 0x0A000002, Mask = Mask4 0xFFFFFF00 \<rparr>]], True)"
  by (simp add: IfindexToAddrsAdd_def sameAddr_def IP_Equal_def)

text \<open>
  C7, amended. For an ifindex with a stored list, \<open>IfindexToAddrsAdd\<close> returns false
  and leaves the map unchanged when some stored entry has an equal IP and contains, and
  is contained by, the new address; otherwise the address is appended and the call
  returns true. An entry with the same IP and another prefix length is such an entry;
  an address in mutual containment with no stored entry is always appended.
\<close>

theorem IfindexToAddrsAdd_same_ip:
  "(m index = Some addrs \<longrightarrow>
      (\<exists>a \<in> set addrs. IPNet.IP a = IPNet.IP addr \<and> Contains a (IPNet.IP addr) \<and> Contains addr (IPNet.IP a)) \<longrightarrow>
      IfindexToAddrsAdd m index addr = (m, False)) \<and>
   (m index = Some addrs \<longrightarrow>
      \<not> (\<exists>a \<in> set addrs. IPNet.IP a = IPNet.IP addr \<and> Contains a (IPNet.IP addr) \<and> Contains addr (IPNet.IP a)) \<longrightarrow>
      IfindexToAddrsAdd m index addr = (m(index \<mapsto> addrs @ [addr]), True)) \<and>
   (m index = Some addrs \<longrightarrow>
      \<not> (\<exists>a \<in> set addrs. Contains a (IPNet.IP addr) \<and> Contains addr (IPNet.IP a)) \<longrightarrow>
      IfindexToAddrsAdd m index addr = (m(index \<mapsto> addrs @ [addr]), True)) \<and>
   (m index = Some addrs \<longrightarrow>
      (\<exists>a \<in> set addrs. \<exists>x ma mb.
          a = \<lparr> IP = IPv4 x, Mask = Mask4 ma \<rparr> \<and> addr = \<lparr> IP = IPv4 x, Mask = Mask4 mb \<rparr>) \<longrightarrow>
      IfindexToAddrsAdd m index addr = (m, False)) \<and>
   (m index = Some addrs \<longrightarrow>
      (\<exists>a \<in> set addrs. \<exists>x ma mb.
          a = \<lparr> IP = IPv6 x, Mask = Mask6 ma \<rparr> \<and> addr = \<lparr> IP = IPv6 x, Mask = Mask6 mb \<rparr>) \<longrightarrow>
      IfindexToAddrsAdd m index addr = (m, False))"
proof -
  have found: "findAddr addrs addr \<longleftrightarrow>
      (\<exists>a \<in> set addrs. IPNet.IP a = IPNet.IP addr \<and> Contains a (IPNet.IP addr) \<and> Contains addr (IPNet.IP a))"
    by (simp add: findAddr_iff sameAddr_def IP_Equal_def)
  have hit: "findAddr addrs addr \<Longrightarrow> m index = Some addrs \<Longrightarrow>
      IfindexToAddrsAdd m index addr = (m, False)"
    by (simp add: IfindexToAddrsAdd_def)
  have miss: "\<not> findAddr addrs addr \<Longrightarrow> m index = Some addrs \<Longrightarrow>
      IfindexToAddrsAdd m index addr = (m(index \<mapsto> addrs @ [addr]), True)"
    by (simp add: IfindexToAddrsAdd_def)
  have v4: "(\<exists>a \<in> set addrs. \<exists>x ma mb.
          a = \<lparr> IP = IPv4 x, Mask = Mask4 ma \<rparr> \<and> addr = \<lparr> IP = IPv4 x, Mask = Mask4 mb \<rparr>)
      \<Longrightarrow> findAddr addrs addr"
    unfolding found by force
  have v6: "(\<exists>a \<in> set addrs. \<exists>x ma mb.
          a = \<lparr> IP = IPv6 x, Mask = Mask6 ma \<rparr> \<and> addr = \<lparr> IP = IPv6 x, Mask = Mask6 mb \<rparr>)
      \<Longrightarrow> findAddr addrs addr"
    unfolding found by force
  have nomutual: "\<not> (\<exists>a \<in> set addrs. Contains a (IPNet.IP addr) \<and> Contains addr (IPNet.IP a))
      \<Longrightarrow> \<not> findAddr addrs addr"
    unfolding found by blast
  show ?thesis
    using found hit miss v4 v6 nomutual by blast
qed

theorem IfindexToAddrsAdd_same_ip_witness:
  "[1 \<mapsto> [\<lparr> IP = IPv4 0x0A000001, Mask = Mask4 0xFFFFFF00 \<rparr>]] (1::int)
     = Some [\<lparr> IP = IPv4 0x0A000001, Mask = Mask4 0xFFFFFF00 \<rparr>] \<and>
   (\<exists>a \<in> set [\<lparr> IP = IPv4 0x0A000001, Mask = Mask4 0xFFFFFF00 \<rparr>].
      IPNet.IP a = IPv4 0x0A000001 \<and>
      Contains a (IPv4 0x0A000001) \<and>
      Contains \<lparr> IP = IPv4 0x0A000001, Mask = Mask4 0xFFFF0000 \<rparr> (IPNet.IP a)) \<and>
   \<not> (\<exists>a \<in> set [\<lparr> IP = IPv4 0x0A000001, Mask = Mask4 0xFFFFFF00 \<rparr>].
      Contains a (IPv4 0x0A000102) \<and>
      Contains \<lparr> IP = IPv4 0x0A000102, Mask = Mask4 0xFFFFFF00 \<rparr> (IPNet.IP a)) \<and>
   IfindexToAddrsAdd [1 \<mapsto> [\<lparr> IP = IPv4 0x0A000001, Mask = Mask4 0xFFFFFF00 \<rparr>]] 1
       \<lparr> IP = IPv4 0x0A000001, Mask = Mask4 0xFFFF0000 \<rparr>
     = ([1 \<mapsto> [\<lparr> IP = IPv4 0x0A000001, Mask = Mask4 0xFFFFFF00 \<rparr>]], False) \<and>
   IfindexToAddrsAdd [1 \<mapsto> [\<lparr> IP = IPv4 0x0A000001, Mask = Mask4 0xFFFFFF00 \<rparr>]] 1
       \<lparr> IP = IPv4 0x0A000102, Mask = Mask4 0xFFFFFF00 \<rparr>
     = ([1 \<mapsto> [\<lparr> IP = IPv4 0x0A000001, Mask = Mask4 0xFFFFFF00 \<rparr>,
                 \<lparr> IP = IPv4 0x0A000102, Mask = Mask4 0xFFFFFF00 \<rparr>]], True)"
  using IfindexToAddrsAdd_same_ip
    [of "[1 \<mapsto> [\<lparr> IP = IPv4 0x0A000001, Mask = Mask4 0xFFFFFF00 \<rparr>]]" 1
        "[\<lparr> IP = IPv4 0x0A000001, Mask = Mask4 0xFFFFFF00 \<rparr>]"
        "\<lparr> IP = IPv4 0x0A000001, Mask = Mask4 0xFFFF0000 \<rparr>"]
    IfindexToAddrsAdd_same_ip
    [of "[1 \<mapsto> [\<lparr> IP = IPv4 0x0A000001, Mask = Mask4 0xFFFFFF00 \<rparr>]]" 1
        "[\<lparr> IP = IPv4 0x0A000001, Mask = Mask4 0xFFFFFF00 \<rparr>]"
        "\<lparr> IP = IPv4 0x0A000102, Mask = Mask4 0xFFFFFF00 \<rparr>"]
  by simp

subsection \<open>Periodic connectivity test\<close>

lemma VerifyDeviceNetworkStatus_sample:
  "VerifyDeviceNetworkStatus (sample_probe r) status n = Inr r"
  by (simp add: VerifyDeviceNetworkStatus_def sample_probe_def Let_def)

text \<open>
  C1. When the previous test succeeded (\<open>CloudConnectivityWorks\<close> is true), one failing
  probe makes no call to \<open>RestartVerify\<close>: the context only gets
  \<open>CloudConnectivityWorks\<close> set to false and a new network-test timer. Whenever
  \<open>tryDeviceConnectivityToCloud\<close> returns, it has called \<open>RestartVerify\<close> exactly when
  the probe failed, \<open>CloudConnectivityWorks\<close> was already false and no verification was
  in progress.
\<close>

theorem tryDeviceConnectivityToCloud_debounce:
  "(VerifyDeviceNetworkStatus env (DeviceNetworkStatus ctx) 1 = Inr False \<longrightarrow>
      CloudConnectivityWorks ctx \<longrightarrow>
      tryDeviceConnectivityToCloud rv env now ctx =
        Inr (ctx\<lparr>NetworkTestTimer := NewTimer now (int (NetworkTestInterval ctx) * Second),
                 CloudConnectivityWorks := False\<rparr>, False, [])) \<and>
   (\<forall>ctx' ok calls.
      tryDeviceConnectivityToCloud rv env now ctx = Inr (ctx', ok, calls) \<longrightarrow>
        (calls \<noteq> [] \<longleftrightarrow>
           VerifyDeviceNetworkStatus env (DeviceNetworkStatus ctx) 1 = Inr False \<and>
           \<not> CloudConnectivityWorks ctx \<and> \<not> Inprogress (Pending ctx)))"
  by (auto simp: tryDeviceConnectivityToCloud_def Let_def split: sum.splits if_splits)

theorem tryDeviceConnectivityToCloud_debounce_witness:
  "VerifyDeviceNetworkStatus (sample_probe False) (DeviceNetworkStatus sample_dnc) 1 = Inr False \<and>
   CloudConnectivityWorks sample_dnc \<and>
   tryDeviceConnectivityToCloud sample_RestartVerify (sample_probe False) 77 sample_dnc =
     Inr (sample_dnc\<lparr>NetworkTestTimer := NewTimer 77 (300 * Second),
                     CloudConnectivityWorks := False\<rparr>, False, []) \<and>
   tryDeviceConnectivityToCloud sample_RestartVerify (sample_probe False) 77
       (sample_dnc\<lparr>CloudConnectivityWorks := False\<rparr>) =
     Inr (sample_RestartVerify ''tryDeviceConnectivityToCloud''
            (sample_dnc\<lparr>CloudConnectivityWorks := False\<rparr>),
          False, [''tryDeviceConnectivityToCloud'']) \<and>
   ([''tryDeviceConnectivityToCloud''] \<noteq> [] \<longleftrightarrow>
      VerifyDeviceNetworkStatus (sample_probe False)
        (DeviceNetworkStatus (sample_dnc\<lparr>CloudConnectivityWorks := False\<rparr>)) 1 = Inr False \<and>
      \<not> CloudConnectivityWorks (sample_dnc\<lparr>CloudConnectivityWorks := False\<rparr>) \<and>
      \<not> Inprogress (Pending (sample_dnc\<lparr>CloudConnectivityWorks := False\<rparr>)))"
proof -
  have probe: "VerifyDeviceNetworkStatus (sample_probe False) (DeviceNetworkStatus sample_dnc) 1
      = Inr False"
    by (rule VerifyDeviceNetworkStatus_sample)
  have works: "CloudConnectivityWorks sample_dnc"
    by (simp add: sample_dnc_def)
  have interval: "NetworkTestInterval sample_dnc = 300"
    by (simp add: sample_dnc_def)
  have first: "tryDeviceConnectivityToCloud sample_RestartVerify (sample_probe False) 77 sample_dnc =
     Inr (sample_dnc\<lparr>NetworkTestTimer := NewTimer 77 (300 * Second),
                     CloudConnectivityWorks := False\<rparr>, False, [])"
    using tryDeviceConnectivityToCloud_debounce
      [of "sample_probe False" sample_dnc sample_RestartVerify 77] probe works interval
    by simp
  have second: "tryDeviceConnectivityToCloud sample_RestartVerify (sample_probe False) 77
       (sample_dnc\<lparr>CloudConnectivityWorks := False\<rparr>) =
     Inr (sample_RestartVerify ''tryDeviceConnectivityToCloud''
            (sample_dnc\<lparr>CloudConnectivityWorks := False\<rparr>),
          False, [''tryDeviceConnectivityToCloud''])"
    by (simp add: tryDeviceConnectivityToCloud_def VerifyDeviceNetworkStatus_sample)
      (simp add: sample_dnc_def)
  have idle: "\<not> Inprogress (Pending sample_dnc)"
    by (simp add: sample_dnc_def)
  show ?thesis
    using probe works first second idle
    by (simp add: VerifyDeviceNetworkStatus_sample)
qed

text \<open>
  C3 fails on the code. With a passing probe and \<open>NextDPCIndex = 0\<close> pointing at the only
  candidate, the call at time 77 re-arms the network-test timer, but the candidate in
  the list keeps \<open>LastSucceeded = 0\<close>: the time is written to the local copy \<open>cur\<close>.
\<close>

theorem tryDeviceConnectivityToCloud_LastSucceeded_lost:
  "tryDeviceConnectivityToCloud sample_RestartVerify (sample_probe True) 77 sample_dnc =
     Inr (sample_dnc\<lparr>CloudConnectivityWorks := True,
                     NetworkTestTimer := NewTimer 77 (300 * Second)\<rparr>, True, []) \<and>
   NextDPCIndex sample_dnc = 0 \<and>
   map LastSucceeded (PortConfigList (DevicePortConfigList sample_dnc)) = [0] \<and>
   map LastSucceeded (PortConfigList (DevicePortConfigList
       (sample_dnc\<lparr>CloudConnectivityWorks := True,
                   NetworkTestTimer := NewTimer 77 (300 * Second)\<rparr>))) = [0]"
  by (simp add: tryDeviceConnectivityToCloud_def VerifyDeviceNetworkStatus_sample Let_def)
    (simp add: sample_dnc_def sample_dpc_def)

subsection \<open>Test-better timer\<close>

text \<open>
  C2 as stated fails: \<open>NextDPCIndex\<close> is an \<open>int\<close> and the \<open>select\<close> case compares
  it with 0 only, so a firing at \<open>NextDPCIndex = -1\<close>, which is not greater than 0,
  calls \<open>RestartVerify\<close>.
\<close>

theorem NetworkTestBetterTimer_negative_index_counterexample:
  "NextDPCIndex (sample_dnc\<lparr>NextDPCIndex := - 1\<rparr>) = - 1 \<and>
   \<not> 0 < NextDPCIndex (sample_dnc\<lparr>NextDPCIndex := - 1\<rparr>) \<and>
   Run_case_NetworkTestBetterTimer sample_RestartVerify True (sample_dnc\<lparr>NextDPCIndex := - 1\<rparr>) =
     (sample_RestartVerify ''NetworkTestBetterTimer'' (sample_dnc\<lparr>NextDPCIndex := - 1\<rparr>),
      [''NetworkTestBetterTimer''])"
  by (simp add: Run_case_NetworkTestBetterTimer_def)

text \<open>
  C2, amended. When the test-better timer fires, \<open>RestartVerify\<close> is called exactly
  when \<open>NextDPCIndex\<close> is not 0 (for an index that is not negative: exactly when
  \<open>NextDPCIndex > 0\<close>, a lower-priority candidate), once, with the context as it is;
  at \<open>NextDPCIndex = 0\<close>, and when the channel was closed, nothing happens. With a
  configured interval of zero the timer is made and stopped, and never sends.
\<close>

theorem NetworkTestBetterTimer_restart_iff_nonzero:
  "(snd (Run_case_NetworkTestBetterTimer rv True dnc) \<noteq> [] \<longleftrightarrow> NextDPCIndex dnc \<noteq> 0) \<and>
   (0 \<le> NextDPCIndex dnc \<longrightarrow>
      (snd (Run_case_NetworkTestBetterTimer rv True dnc) \<noteq> [] \<longleftrightarrow> 0 < NextDPCIndex dnc)) \<and>
   (NextDPCIndex dnc \<noteq> 0 \<longrightarrow>
      Run_case_NetworkTestBetterTimer rv True dnc =
        (rv ''NetworkTestBetterTimer'' dnc, [''NetworkTestBetterTimer''])) \<and>
   (NextDPCIndex dnc = 0 \<longrightarrow> Run_case_NetworkTestBetterTimer rv True dnc = (dnc, [])) \<and>
   Run_case_NetworkTestBetterTimer rv False dnc = (dnc, []) \<and>
   (\<forall>at. \<not> delivers (NetworkTestBetterTimer (Run_setup_NetworkTestBetterTimer now 0 dnc)) at)"
  by (auto simp: Run_case_NetworkTestBetterTimer_def Run_setup_NetworkTestBetterTimer_def
      delivers_def Stop_def NewTimer_def Let_def)

theorem NetworkTestBetterTimer_restart_iff_nonzero_witness:
  "0 \<le> NextDPCIndex (sample_dnc\<lparr>NextDPCIndex := 2\<rparr>) \<and>
   NextDPCIndex (sample_dnc\<lparr>NextDPCIndex := 2\<rparr>) \<noteq> 0 \<and>
   Run_case_NetworkTestBetterTimer sample_RestartVerify True (sample_dnc\<lparr>NextDPCIndex := 2\<rparr>) =
     (sample_RestartVerify ''NetworkTestBetterTimer'' (sample_dnc\<lparr>NextDPCIndex := 2\<rparr>),
      [''NetworkTestBetterTimer'']) \<and>
   NextDPCIndex sample_dnc = 0 \<and>
   Run_case_NetworkTestBetterTimer sample_RestartVerify True sample_dnc = (sample_dnc, [])"
proof -
  have zero: "NextDPCIndex sample_dnc = 0"
    by (simp add: sample_dnc_def)
  show ?thesis
    using zero
      NetworkTestBetterTimer_restart_iff_nonzero
        [of sample_RestartVerify "sample_dnc\<lparr>NextDPCIndex := 2\<rparr>" 0]
      NetworkTestBetterTimer_restart_iff_nonzero [of sample_RestartVerify sample_dnc 0]
    by simp
qed

subsection \<open>Status synthesis\<close>

lemma MakeDeviceNetworkStatus_step_Version:
  "Version (fold (MakeDeviceNetworkStatus_step env now cfg) ixs gs) = Version gs"
  by (induction ixs arbitrary: gs) (simp_all add: MakeDeviceNetworkStatus_step_def)

lemma MakeDeviceNetworkStatus_ports_Version:
  "Version (MakeDeviceNetworkStatus_ports env now cfg) = DevicePortConfig.Version cfg"
  by (simp add: MakeDeviceNetworkStatus_ports_def MakeDeviceNetworkStatus_step_Version)









lemma MakeDeviceNetworkStatus_step_length:
  "length (Ports (fold (MakeDeviceNetworkStatus_step env now cfg) ixs gs)) = length (Ports gs)"
  by (induction ixs arbitrary: gs) (simp_all add: MakeDeviceNetworkStatus_step_def)

lemma MakeDeviceNetworkStatus_step_untouched:
  "j \<notin> set ixs \<Longrightarrow>
     Ports (fold (MakeDeviceNetworkStatus_step env now cfg) ixs gs) ! j = Ports gs ! j"
  by (induction ixs arbitrary: gs) (simp_all add: MakeDeviceNetworkStatus_step_def)

lemma MakeDeviceNetworkStatus_step_nth:
  assumes "j < k" "k \<le> length (Ports gs)"
  shows "Ports (fold (MakeDeviceNetworkStatus_step env now cfg) [0..<k] gs) ! j
     = MakeDeviceNetworkStatus_port env now (DevicePortConfig.Ports cfg ! j)
         (fold (MakeDeviceNetworkStatus_step env now cfg) [0..<j] gs) j"
proof -
  let ?step = "MakeDeviceNetworkStatus_step env now cfg"
  have split: "[0..<k] = [0..<j] @ j # [Suc j..<k]"
    using assms(1) by (metis less_imp_le_nat upt_add_eq_append upt_conv_Cons le0 le_add_diff_inverse plus_nat.add_0)
  have len: "j < length (Ports (fold ?step [0..<j] gs))"
    using assms by (simp add: MakeDeviceNetworkStatus_step_length)
  have "Ports (fold ?step [0..<k] gs) ! j = Ports (?step j (fold ?step [0..<j] gs)) ! j"
    by (simp add: split MakeDeviceNetworkStatus_step_untouched)
  also have "\<dots> = MakeDeviceNetworkStatus_port env now (DevicePortConfig.Ports cfg ! j)
         (fold ?step [0..<j] gs) j"
    using len by (simp add: MakeDeviceNetworkStatus_step_def)
  finally show ?thesis .
qed

lemma MakeDeviceNetworkStatus_ports_nth:
  assumes "j < length (DevicePortConfig.Ports cfg)"
  shows "length (Ports (MakeDeviceNetworkStatus_ports env now cfg))
           = length (DevicePortConfig.Ports cfg)"
    and "IfnameToIndex env (NetworkPortConfig.IfName (DevicePortConfig.Ports cfg ! j)) = None \<Longrightarrow>
         Ports (MakeDeviceNetworkStatus_ports env now cfg) ! j
           = setFromConfig env (DevicePortConfig.Ports cfg ! j) NetworkPortStatus_zero"
proof -
  show "length (Ports (MakeDeviceNetworkStatus_ports env now cfg))
           = length (DevicePortConfig.Ports cfg)"
    by (simp add: MakeDeviceNetworkStatus_ports_def MakeDeviceNetworkStatus_step_length)
  assume unknown: "IfnameToIndex env (NetworkPortConfig.IfName (DevicePortConfig.Ports cfg ! j)) = None"
  show "Ports (MakeDeviceNetworkStatus_ports env now cfg) ! j
           = setFromConfig env (DevicePortConfig.Ports cfg ! j) NetworkPortStatus_zero"
    using assms unknown
    by (simp add: MakeDeviceNetworkStatus_ports_def MakeDeviceNetworkStatus_step_nth
        MakeDeviceNetworkStatus_port_def MakeDeviceNetworkStatus_step_untouched Let_def)
qed

lemma setFromConfig_fields:
  "Error (setFromConfig env u p) = Error p"
  "ErrorTime (setFromConfig env u p) = ErrorTime p"
  "AddrInfoList (setFromConfig env u p) = AddrInfoList p"
  "IfName (setFromConfig env u p) = NetworkPortConfig.IfName u"
  by (simp_all add: setFromConfig_def Let_def split: option.splits)

lemma geo_stages_fields:
  "Error (fst (UpdateDeviceNetworkGeo_port env now lim v (preserveGeo_port old u))) = Error u"
  "ErrorTime (fst (UpdateDeviceNetworkGeo_port env now lim v (preserveGeo_port old u))) = ErrorTime u"
  "IfName (fst (UpdateDeviceNetworkGeo_port env now lim v (preserveGeo_port old u))) = IfName u"
  "map Addr (AddrInfoList (fst (UpdateDeviceNetworkGeo_port env now lim v (preserveGeo_port old u))))
     = map Addr (AddrInfoList u)"
  by (simp_all add: UpdateDeviceNetworkGeo_port_def preserveGeo_port_def Let_def comp_def
      UpdateDeviceNetworkGeo_addr_def preserveGeo_addr_def split: option.splits)

lemma MakeDeviceNetworkStatus_nth:
  assumes "j < length (DevicePortConfig.Ports cfg)"
  shows "Ports (fst (MakeDeviceNetworkStatus env now cfg old)) ! j
     = fst (UpdateDeviceNetworkGeo_port env now Second (DevicePortConfig.Version cfg)
         (preserveGeo_port old (Ports (MakeDeviceNetworkStatus_ports env now cfg) ! j)))"
  using assms MakeDeviceNetworkStatus_ports_nth(1) [OF assms, of env now]
  by (simp add: MakeDeviceNetworkStatus_def UpdateDeviceNetworkGeo_def preserveGeo_def Let_def
      MakeDeviceNetworkStatus_ports_Version)

text \<open>
  A port whose interface name \<open>IfnameToIndex\<close> does not know: in the returned status it
  has no addresses, an empty \<open>Error\<close> and the zero \<open>ErrorTime\<close>; the status has one
  port for each configured port, and no error is returned.
\<close>

lemma MakeDeviceNetworkStatus_unknown_port:
  assumes j: "j < length (DevicePortConfig.Ports cfg)"
    and unknown: "IfnameToIndex env (NetworkPortConfig.IfName (DevicePortConfig.Ports cfg ! j)) = None"
  shows "Error (Ports (fst (MakeDeviceNetworkStatus env now cfg old)) ! j) = []"
    and "ErrorTime (Ports (fst (MakeDeviceNetworkStatus env now cfg old)) ! j) = 0"
    and "AddrInfoList (Ports (fst (MakeDeviceNetworkStatus env now cfg old)) ! j) = []"
    and "length (Ports (fst (MakeDeviceNetworkStatus env now cfg old)))
           = length (DevicePortConfig.Ports cfg)"
    and "snd (MakeDeviceNetworkStatus env now cfg old) = None"
proof -
  have port: "Ports (MakeDeviceNetworkStatus_ports env now cfg) ! j
      = setFromConfig env (DevicePortConfig.Ports cfg ! j) NetworkPortStatus_zero"
    using MakeDeviceNetworkStatus_ports_nth(2) [OF j unknown] .
  show "Error (Ports (fst (MakeDeviceNetworkStatus env now cfg old)) ! j) = []"
    by (simp add: MakeDeviceNetworkStatus_nth [OF j] geo_stages_fields port setFromConfig_fields
        NetworkPortStatus_zero_def)
  show "ErrorTime (Ports (fst (MakeDeviceNetworkStatus env now cfg old)) ! j) = 0"
    by (simp add: MakeDeviceNetworkStatus_nth [OF j] geo_stages_fields port setFromConfig_fields
        NetworkPortStatus_zero_def)
  have "map Addr (AddrInfoList (Ports (fst (MakeDeviceNetworkStatus env now cfg old)) ! j)) = []"
    by (simp only: MakeDeviceNetworkStatus_nth [OF j] geo_stages_fields port setFromConfig_fields)
      (simp add: NetworkPortStatus_zero_def)
  then show "AddrInfoList (Ports (fst (MakeDeviceNetworkStatus env now cfg old)) ! j) = []"
    by simp
  show "length (Ports (fst (MakeDeviceNetworkStatus env now cfg old)))
           = length (DevicePortConfig.Ports cfg)"
    using MakeDeviceNetworkStatus_ports_nth(1) [OF j, of env now]
    by (simp add: MakeDeviceNetworkStatus_def UpdateDeviceNetworkGeo_def preserveGeo_def Let_def)
  show "snd (MakeDeviceNetworkStatus env now cfg old) = None"
    by (simp add: MakeDeviceNetworkStatus_def Let_def)
qed





lemma withoutGeo_addr_Update:
  "(fst (UpdateDeviceNetworkGeo_addr env now lim a))\<lparr>Geo := z, LastGeoTimestamp := t\<rparr>
     = a\<lparr>Geo := z, LastGeoTimestamp := t\<rparr>"
  by (simp add: UpdateDeviceNetworkGeo_addr_def split: option.splits)

lemma withoutGeo_port_Update:
  "(fst (UpdateDeviceNetworkGeo_port env now lim v u))
      \<lparr>AddrInfoList := map (\<lambda>ai. ai\<lparr>Geo := z, LastGeoTimestamp := t\<rparr>)
          (AddrInfoList (fst (UpdateDeviceNetworkGeo_port env now lim v u)))\<rparr>
     = u\<lparr>AddrInfoList := map (\<lambda>ai. ai\<lparr>Geo := z, LastGeoTimestamp := t\<rparr>) (AddrInfoList u)\<rparr>"
  by (simp add: UpdateDeviceNetworkGeo_port_def Let_def comp_def withoutGeo_addr_Update)

lemma withoutGeo_UpdateDeviceNetworkGeo:
  "withoutGeo (fst (UpdateDeviceNetworkGeo env now lim gs)) = withoutGeo gs"
  by (simp add: withoutGeo_def UpdateDeviceNetworkGeo_def Let_def comp_def withoutGeo_port_Update)

lemma withoutGeo_addr_preserve:
  "(preserveGeo_addr old n a)\<lparr>Geo := z, LastGeoTimestamp := t\<rparr>
     = a\<lparr>Geo := z, LastGeoTimestamp := t\<rparr>"
  by (simp add: preserveGeo_addr_def split: option.splits)

lemma withoutGeo_preserveGeo:
  "withoutGeo (preserveGeo old gs) = withoutGeo gs"
  by (simp add: withoutGeo_def preserveGeo_def preserveGeo_port_def comp_def
      withoutGeo_addr_preserve)

lemma withoutGeo_MakeDeviceNetworkStatus:
  "withoutGeo (fst (MakeDeviceNetworkStatus env now cfg old))
     = withoutGeo (MakeDeviceNetworkStatus_ports env now cfg)"
  by (simp add: MakeDeviceNetworkStatus_def Let_def withoutGeo_UpdateDeviceNetworkGeo
      withoutGeo_preserveGeo)

lemma MakeDeviceNetworkStatus_ports_geo_service:
  "MakeDeviceNetworkStatus_ports (env\<lparr>MyIPWithOptions := g\<rparr>) now cfg
     = MakeDeviceNetworkStatus_ports env now cfg"
proof -
  have "MakeDeviceNetworkStatus_step (env\<lparr>MyIPWithOptions := g\<rparr>) now cfg
      = MakeDeviceNetworkStatus_step env now cfg"
    by (intro ext) (simp add: MakeDeviceNetworkStatus_step_def MakeDeviceNetworkStatus_port_def
        setFromConfig_def Let_def split: option.splits)
  then show ?thesis
    by (simp add: MakeDeviceNetworkStatus_ports_def)
qed

lemma recordError_no_error: "snd r = None \<Longrightarrow> recordError what now r = fst r"
  by (cases r) (simp add: recordError_def)

lemma MakeDeviceNetworkStatus_ports_clock:
  assumes dhcp: "\<forall>p. snd (GetDhcpInfo env p) = None"
    and proxy: "\<forall>s p. snd (CheckAndGetNetworkProxy env s p) = None"
  shows "MakeDeviceNetworkStatus_ports env now1 cfg = MakeDeviceNetworkStatus_ports env now2 cfg"
proof -
  have "MakeDeviceNetworkStatus_port env now1 u gs ix = MakeDeviceNetworkStatus_port env now2 u gs ix"
    for u gs ix
    by (simp add: MakeDeviceNetworkStatus_port_def Let_def recordError_no_error dhcp proxy
        split: option.splits)
  then have "MakeDeviceNetworkStatus_step env now1 cfg = MakeDeviceNetworkStatus_step env now2 cfg"
    by (intro ext) (simp add: MakeDeviceNetworkStatus_step_def)
  then show ?thesis
    by (simp add: MakeDeviceNetworkStatus_ports_def)
qed

text \<open>
  C5 as stated fails: when the DHCP look-up of a port fails, the port is stamped with
  the time of the call, so a first call at time 5 and a second one at time 9, with the
  first result as old status, differ in \<open>ErrorTime\<close> even with the geolocation blanked.
\<close>

theorem MakeDeviceNetworkStatus_twice_ErrorTime_counterexample:
  "map ErrorTime (Ports (withoutGeo (fst (MakeDeviceNetworkStatus
        (sample_os\<lparr>GetDhcpInfo := (\<lambda>p. (p, Some ''no lease''))\<rparr>) 5
        (sample_config [''eth0'']) DeviceNetworkStatus_zero)))) = [5] \<and>
   map ErrorTime (Ports (withoutGeo (fst (MakeDeviceNetworkStatus
        (sample_os\<lparr>GetDhcpInfo := (\<lambda>p. (p, Some ''no lease''))\<rparr>) 9
        (sample_config [''eth0''])
        (fst (MakeDeviceNetworkStatus
           (sample_os\<lparr>GetDhcpInfo := (\<lambda>p. (p, Some ''no lease''))\<rparr>) 5
           (sample_config [''eth0'']) DeviceNetworkStatus_zero)))))) = [9] \<and>
   withoutGeo (fst (MakeDeviceNetworkStatus
        (sample_os\<lparr>GetDhcpInfo := (\<lambda>p. (p, Some ''no lease''))\<rparr>) 9
        (sample_config [''eth0''])
        (fst (MakeDeviceNetworkStatus
           (sample_os\<lparr>GetDhcpInfo := (\<lambda>p. (p, Some ''no lease''))\<rparr>) 5
           (sample_config [''eth0'']) DeviceNetworkStatus_zero))))
     \<noteq> withoutGeo (fst (MakeDeviceNetworkStatus
        (sample_os\<lparr>GetDhcpInfo := (\<lambda>p. (p, Some ''no lease''))\<rparr>) 5
        (sample_config [''eth0'']) DeviceNetworkStatus_zero))"
proof -
  have first: "map ErrorTime (Ports (withoutGeo (fst (MakeDeviceNetworkStatus
        (sample_os\<lparr>GetDhcpInfo := (\<lambda>p. (p, Some ''no lease''))\<rparr>) 5
        (sample_config [''eth0'']) DeviceNetworkStatus_zero)))) = [5]"
    by code_simp
  have second: "map ErrorTime (Ports (withoutGeo (fst (MakeDeviceNetworkStatus
        (sample_os\<lparr>GetDhcpInfo := (\<lambda>p. (p, Some ''no lease''))\<rparr>) 9
        (sample_config [''eth0''])
        (fst (MakeDeviceNetworkStatus
           (sample_os\<lparr>GetDhcpInfo := (\<lambda>p. (p, Some ''no lease''))\<rparr>) 5
           (sample_config [''eth0'']) DeviceNetworkStatus_zero)))))) = [9]"
    by code_simp
  show ?thesis
    using first second by auto
qed

text \<open>
  Whatever the old status of the second call, and whatever the geolocation service
  answers, the two results agree outside the geolocation of the addresses.
\<close>

lemma MakeDeviceNetworkStatus_twice_up_to_geo:
  assumes "now2 = now1 \<or>
      ((\<forall>p. snd (GetDhcpInfo env p) = None) \<and>
       (\<forall>s p. snd (CheckAndGetNetworkProxy env s p) = None))"
  shows "withoutGeo (fst (MakeDeviceNetworkStatus (env\<lparr>MyIPWithOptions := g\<rparr>) now2 cfg
             (fst (MakeDeviceNetworkStatus env now1 cfg old))))
         = withoutGeo (fst (MakeDeviceNetworkStatus env now1 cfg old))"
proof -
  have "MakeDeviceNetworkStatus_ports env now2 cfg = MakeDeviceNetworkStatus_ports env now1 cfg"
    using assms MakeDeviceNetworkStatus_ports_clock [of env now2 cfg now1] by blast
  then show ?thesis
    by (simp add: withoutGeo_MakeDeviceNetworkStatus MakeDeviceNetworkStatus_ports_geo_service)
qed

lemma lookupAddrInfo_distinct:
  "distinct (map Addr ais) \<Longrightarrow> x \<in> set ais \<Longrightarrow> lookupAddrInfo ais (Addr x) = Some x"
  by (induction ais) (auto simp: IP_Equal_def)

lemma lookupPorts_distinct:
  "distinct (map IfName us) \<Longrightarrow> u \<in> set us \<Longrightarrow> distinct (map Addr (AddrInfoList u)) \<Longrightarrow>
     x \<in> set (AddrInfoList u) \<Longrightarrow> lookupPorts us (IfName u) (Addr x) = Some x"
  by (induction us) (auto simp: lookupAddrInfo_distinct)

lemma withoutGeo_addr_eq:
  assumes "a\<lparr>Geo := z, LastGeoTimestamp := t\<rparr> = x\<lparr>Geo := z, LastGeoTimestamp := t\<rparr>"
  shows "a\<lparr>Geo := Geo x, LastGeoTimestamp := LastGeoTimestamp x\<rparr> = x"
    and "Addr a = Addr x"
proof -
  have "(a\<lparr>Geo := z, LastGeoTimestamp := t\<rparr>)\<lparr>Geo := Geo x, LastGeoTimestamp := LastGeoTimestamp x\<rparr>
      = (x\<lparr>Geo := z, LastGeoTimestamp := t\<rparr>)\<lparr>Geo := Geo x, LastGeoTimestamp := LastGeoTimestamp x\<rparr>"
    by (simp only: assms)
  then show "a\<lparr>Geo := Geo x, LastGeoTimestamp := LastGeoTimestamp x\<rparr> = x"
    by simp
  have "Addr (a\<lparr>Geo := z, LastGeoTimestamp := t\<rparr>) = Addr (x\<lparr>Geo := z, LastGeoTimestamp := t\<rparr>)"
    by (simp only: assms)
  then show "Addr a = Addr x"
    by simp
qed

lemma withoutGeo_port_eq:
  assumes "u\<lparr>AddrInfoList := xs\<rparr> = v\<lparr>AddrInfoList := ys\<rparr>"
  shows "u\<lparr>AddrInfoList := AddrInfoList v\<rparr> = v" and "IfName u = IfName v" and "xs = ys"
proof -
  have "(u\<lparr>AddrInfoList := xs\<rparr>)\<lparr>AddrInfoList := AddrInfoList v\<rparr>
      = (v\<lparr>AddrInfoList := ys\<rparr>)\<lparr>AddrInfoList := AddrInfoList v\<rparr>"
    by (simp only: assms)
  then show "u\<lparr>AddrInfoList := AddrInfoList v\<rparr> = v"
    by simp
  have "IfName (u\<lparr>AddrInfoList := xs\<rparr>) = IfName (v\<lparr>AddrInfoList := ys\<rparr>)"
    by (simp only: assms)
  then show "IfName u = IfName v"
    by simp
  have "AddrInfoList (u\<lparr>AddrInfoList := xs\<rparr>) = AddrInfoList (v\<lparr>AddrInfoList := ys\<rparr>)"
    by (simp only: assms)
  then show "xs = ys"
    by simp
qed

lemma withoutGeo_status_eq:
  assumes "gs\<lparr>Ports := xs\<rparr> = r\<lparr>Ports := ys\<rparr>"
  shows "gs\<lparr>Ports := Ports r\<rparr> = r" and "xs = ys"
proof -
  have "(gs\<lparr>Ports := xs\<rparr>)\<lparr>Ports := Ports r\<rparr> = (r\<lparr>Ports := ys\<rparr>)\<lparr>Ports := Ports r\<rparr>"
    by (simp only: assms)
  then show "gs\<lparr>Ports := Ports r\<rparr> = r"
    by simp
  have "Ports (gs\<lparr>Ports := xs\<rparr>) = Ports (r\<lparr>Ports := ys\<rparr>)"
    by (simp only: assms)
  then show "xs = ys"
    by simp
qed

lemma preserveGeo_port_same:
  assumes names: "distinct (map IfName (Ports r))"
    and v: "v \<in> set (Ports r)"
    and addrs: "distinct (map Addr (AddrInfoList v))"
    and same: "u\<lparr>AddrInfoList := map (\<lambda>ai. ai\<lparr>Geo := z, LastGeoTimestamp := t\<rparr>) (AddrInfoList u)\<rparr>
             = v\<lparr>AddrInfoList := map (\<lambda>ai. ai\<lparr>Geo := z, LastGeoTimestamp := t\<rparr>) (AddrInfoList v)\<rparr>"
  shows "preserveGeo_port r u = v"
proof -
  note eqs = withoutGeo_port_eq [OF same]
  have "length (map (\<lambda>ai. ai\<lparr>Geo := z, LastGeoTimestamp := t\<rparr>) (AddrInfoList u))
      = length (map (\<lambda>ai. ai\<lparr>Geo := z, LastGeoTimestamp := t\<rparr>) (AddrInfoList v))"
    by (simp only: eqs(3))
  then have len: "length (AddrInfoList u) = length (AddrInfoList v)"
    by simp
  have "map (preserveGeo_addr r (IfName u)) (AddrInfoList u) = AddrInfoList v"
  proof (rule nth_equalityI)
    show "length (map (preserveGeo_addr r (IfName u)) (AddrInfoList u)) = length (AddrInfoList v)"
      using len by simp
  next
    fix i assume "i < length (map (preserveGeo_addr r (IfName u)) (AddrInfoList u))"
    then have i: "i < length (AddrInfoList u)" "i < length (AddrInfoList v)"
      using len by simp_all
    let ?a = "AddrInfoList u ! i" and ?x = "AddrInfoList v ! i"
    have "map (\<lambda>ai. ai\<lparr>Geo := z, LastGeoTimestamp := t\<rparr>) (AddrInfoList u) ! i
        = map (\<lambda>ai. ai\<lparr>Geo := z, LastGeoTimestamp := t\<rparr>) (AddrInfoList v) ! i"
      by (simp only: eqs(3))
    then have ax: "?a\<lparr>Geo := z, LastGeoTimestamp := t\<rparr> = ?x\<lparr>Geo := z, LastGeoTimestamp := t\<rparr>"
      using i by simp
    have x: "?x \<in> set (AddrInfoList v)"
      using i by simp
    have "lookupPortStatusAddr r (IfName v) (Addr ?x) = Some ?x"
      unfolding lookupPortStatusAddr_def
      by (rule lookupPorts_distinct [OF names v addrs x])
    then have "preserveGeo_addr r (IfName u) ?a = ?x"
      by (simp add: preserveGeo_addr_def eqs(2) withoutGeo_addr_eq [OF ax])
    then show "map (preserveGeo_addr r (IfName u)) (AddrInfoList u) ! i = AddrInfoList v ! i"
      using i by simp
  qed
  then show ?thesis
    by (simp add: preserveGeo_port_def eqs(1))
qed

lemma preserveGeo_same:
  assumes names: "distinct (map IfName (Ports r))"
    and addrs: "\<forall>u \<in> set (Ports r). distinct (map Addr (AddrInfoList u))"
    and same: "withoutGeo gs = withoutGeo r"
  shows "preserveGeo r gs = r"
proof -
  let ?w = "\<lambda>u. u\<lparr>AddrInfoList :=
      map (\<lambda>ai. ai\<lparr>Geo := IPInfo_zero, LastGeoTimestamp := 0\<rparr>) (AddrInfoList u)\<rparr>"
  note eqs = withoutGeo_status_eq [OF same [unfolded withoutGeo_def]]
  have "length (map ?w (Ports gs)) = length (map ?w (Ports r))"
    by (simp only: eqs(2))
  then have len: "length (Ports gs) = length (Ports r)"
    by simp
  have "map (preserveGeo_port r) (Ports gs) = Ports r"
  proof (rule nth_equalityI)
    show "length (map (preserveGeo_port r) (Ports gs)) = length (Ports r)"
      using len by simp
  next
    fix j assume "j < length (map (preserveGeo_port r) (Ports gs))"
    then have j: "j < length (Ports gs)" "j < length (Ports r)"
      using len by simp_all
    have "map ?w (Ports gs) ! j = map ?w (Ports r) ! j"
      by (simp only: eqs(2))
    then have uv: "?w (Ports gs ! j) = ?w (Ports r ! j)"
      using j by simp
    have v: "Ports r ! j \<in> set (Ports r)"
      using j by simp
    have d: "distinct (map Addr (AddrInfoList (Ports r ! j)))"
      using addrs v by (rule bspec)
    have "preserveGeo_port r (Ports gs ! j) = Ports r ! j"
      by (rule preserveGeo_port_same [OF names v d uv])
    then show "map (preserveGeo_port r) (Ports gs) ! j = Ports r ! j"
      using j by simp
  qed
  then show ?thesis
    by (simp add: preserveGeo_def eqs(1))
qed

lemma UpdateDeviceNetworkGeo_addr_unchanged:
  "\<not> snd (UpdateDeviceNetworkGeo_addr env now lim a) \<Longrightarrow>
     fst (UpdateDeviceNetworkGeo_addr env now lim a) = a"
  by (simp add: UpdateDeviceNetworkGeo_addr_def split: if_splits option.splits)

lemma UpdateDeviceNetworkGeo_port_unchanged:
  "\<not> snd (UpdateDeviceNetworkGeo_port env now lim v u) \<Longrightarrow>
     fst (UpdateDeviceNetworkGeo_port env now lim v u) = u"
  by (auto simp: UpdateDeviceNetworkGeo_port_def Let_def list_ex_iff comp_def
      UpdateDeviceNetworkGeo_addr_unchanged map_idI split: if_splits)

lemma UpdateDeviceNetworkGeo_unchanged:
  "\<not> snd (UpdateDeviceNetworkGeo env now lim gs) \<Longrightarrow>
     fst (UpdateDeviceNetworkGeo env now lim gs) = gs"
  by (auto simp: UpdateDeviceNetworkGeo_def Let_def list_ex_iff comp_def
      UpdateDeviceNetworkGeo_port_unchanged map_idI)

text \<open>
  Two ports with the same interface name break the equality even when the second call
  refreshes nothing: the first call annotates the address of the management port and
  leaves the other port's address bare; the second call finds the first port's
  annotation for both.
\<close>

lemma MakeDeviceNetworkStatus_twice_same_ifname:
  "map (\<lambda>u. map (\<lambda>ai. (IPInfo.IP (Geo ai), LastGeoTimestamp ai)) (AddrInfoList u))
     (Ports (fst (MakeDeviceNetworkStatus
        (sample_os\<lparr>MyIPWithOptions := (\<lambda>a. Some (sample_geo ''198.51.100.7''))\<rparr>)
        (77 * Second)
        (sample_dpc\<lparr>DevicePortConfig.Ports :=
           [sample_port ''eth0'', (sample_port ''eth0'')\<lparr>NetworkPortConfig.IsMgmt := False\<rparr>]\<rparr>)
        DeviceNetworkStatus_zero)))
     = [[(''198.51.100.7'', 77 * Second)], [([], 0)]] \<and>
   map (\<lambda>u. map (\<lambda>ai. (IPInfo.IP (Geo ai), LastGeoTimestamp ai)) (AddrInfoList u))
     (Ports (fst (MakeDeviceNetworkStatus sample_os (99 * Second)
        (sample_dpc\<lparr>DevicePortConfig.Ports :=
           [sample_port ''eth0'', (sample_port ''eth0'')\<lparr>NetworkPortConfig.IsMgmt := False\<rparr>]\<rparr>)
        (fst (MakeDeviceNetworkStatus
           (sample_os\<lparr>MyIPWithOptions := (\<lambda>a. Some (sample_geo ''198.51.100.7''))\<rparr>)
           (77 * Second)
           (sample_dpc\<lparr>DevicePortConfig.Ports :=
              [sample_port ''eth0'', (sample_port ''eth0'')\<lparr>NetworkPortConfig.IsMgmt := False\<rparr>]\<rparr>)
           DeviceNetworkStatus_zero)))))
     = [[(''198.51.100.7'', 77 * Second)], [(''198.51.100.7'', 77 * Second)]]"
  by code_simp

text \<open>
  C5, amended. Take the same configuration and the same interface, address, DHCP and
  proxy state for both calls (the geolocation service may answer differently), with no
  DHCP or proxy look-up reporting an error (or both calls reading the same time), and
  let the first result have no two ports with the same interface name and no port with
  the same address twice. Then the second call, given the first result as old status,
  returns the first result with the second call's geolocation check
  (\<open>UpdateDeviceNetworkGeo\<close> with a limit of one second) applied to it; when that
  check refreshes nothing, the second result equals the first, \<open>Geo\<close> and
  \<open>LastGeoTimestamp\<close> included.
\<close>

theorem MakeDeviceNetworkStatus_twice_equal:
  assumes quiet: "now2 = now1 \<or>
      ((\<forall>p. snd (GetDhcpInfo env p) = None) \<and>
       (\<forall>s p. snd (CheckAndGetNetworkProxy env s p) = None))"
    and names: "distinct (map IfName (Ports (fst (MakeDeviceNetworkStatus env now1 cfg old))))"
    and addrs: "\<forall>u \<in> set (Ports (fst (MakeDeviceNetworkStatus env now1 cfg old))).
                  distinct (map Addr (AddrInfoList u))"
  shows "fst (MakeDeviceNetworkStatus (env\<lparr>MyIPWithOptions := g\<rparr>) now2 cfg
             (fst (MakeDeviceNetworkStatus env now1 cfg old)))
         = fst (UpdateDeviceNetworkGeo (env\<lparr>MyIPWithOptions := g\<rparr>) now2 Second
             (fst (MakeDeviceNetworkStatus env now1 cfg old))) \<and>
         (\<not> snd (UpdateDeviceNetworkGeo (env\<lparr>MyIPWithOptions := g\<rparr>) now2 Second
             (fst (MakeDeviceNetworkStatus env now1 cfg old))) \<longrightarrow>
          fst (MakeDeviceNetworkStatus (env\<lparr>MyIPWithOptions := g\<rparr>) now2 cfg
             (fst (MakeDeviceNetworkStatus env now1 cfg old)))
          = fst (MakeDeviceNetworkStatus env now1 cfg old))"
proof -
  let ?r1 = "fst (MakeDeviceNetworkStatus env now1 cfg old)"
  let ?env2 = "env\<lparr>MyIPWithOptions := g\<rparr>"
  have ports: "MakeDeviceNetworkStatus_ports ?env2 now2 cfg = MakeDeviceNetworkStatus_ports env now1 cfg"
    using quiet MakeDeviceNetworkStatus_ports_clock [of env now2 cfg now1]
    by (auto simp: MakeDeviceNetworkStatus_ports_geo_service)
  have "withoutGeo (MakeDeviceNetworkStatus_ports env now1 cfg) = withoutGeo ?r1"
    by (simp add: withoutGeo_MakeDeviceNetworkStatus)
  then have kept: "preserveGeo ?r1 (MakeDeviceNetworkStatus_ports env now1 cfg) = ?r1"
    by (rule preserveGeo_same [OF names addrs])
  have first: "fst (MakeDeviceNetworkStatus ?env2 now2 cfg ?r1)
      = fst (UpdateDeviceNetworkGeo ?env2 now2 Second ?r1)"
    using kept ports by (simp add: MakeDeviceNetworkStatus_def Let_def)
  moreover have "fst (MakeDeviceNetworkStatus ?env2 now2 cfg ?r1) = ?r1"
    if "\<not> snd (UpdateDeviceNetworkGeo ?env2 now2 Second ?r1)"
    using that first by (simp add: UpdateDeviceNetworkGeo_unchanged)
  ultimately show ?thesis
    by blast
qed

theorem MakeDeviceNetworkStatus_twice_equal_witness:
  "(\<forall>p. snd (GetDhcpInfo sample_os p) = None) \<and>
   (\<forall>s p. snd (CheckAndGetNetworkProxy sample_os s p) = None) \<and>
   distinct (map IfName (Ports (fst (MakeDeviceNetworkStatus sample_os (77 * Second)
       (sample_config [''wlan9'', ''eth0'']) sample_old)))) \<and>
   list_all (\<lambda>u. distinct (map Addr (AddrInfoList u)))
     (Ports (fst (MakeDeviceNetworkStatus sample_os (77 * Second)
       (sample_config [''wlan9'', ''eth0'']) sample_old))) \<and>
   \<not> snd (UpdateDeviceNetworkGeo (sample_os\<lparr>MyIPWithOptions := (\<lambda>a. None)\<rparr>) (99 * Second) Second
       (fst (MakeDeviceNetworkStatus sample_os (77 * Second)
          (sample_config [''wlan9'', ''eth0'']) sample_old))) \<and>
   map (\<lambda>u. map (\<lambda>ai. (IPInfo.IP (Geo ai), LastGeoTimestamp ai)) (AddrInfoList u))
     (Ports (fst (MakeDeviceNetworkStatus sample_os (77 * Second)
        (sample_config [''wlan9'', ''eth0'']) sample_old)))
     = [[], [(''192.0.2.1'', 0)]] \<and>
   fst (MakeDeviceNetworkStatus (sample_os\<lparr>MyIPWithOptions := (\<lambda>a. None)\<rparr>) (99 * Second)
       (sample_config [''wlan9'', ''eth0''])
       (fst (MakeDeviceNetworkStatus sample_os (77 * Second)
          (sample_config [''wlan9'', ''eth0'']) sample_old)))
     = fst (MakeDeviceNetworkStatus sample_os (77 * Second)
          (sample_config [''wlan9'', ''eth0'']) sample_old)"
proof -
  have ok: "(\<forall>p. snd (GetDhcpInfo sample_os p) = None) \<and>
      (\<forall>s p. snd (CheckAndGetNetworkProxy sample_os s p) = None)"
    by (simp add: sample_os_def)
  then have quiet: "99 * Second = 77 * Second \<or> ((\<forall>p. snd (GetDhcpInfo sample_os p) = None) \<and>
      (\<forall>s p. snd (CheckAndGetNetworkProxy sample_os s p) = None))"
    by blast
  have names: "distinct (map IfName (Ports (fst (MakeDeviceNetworkStatus sample_os (77 * Second)
       (sample_config [''wlan9'', ''eth0'']) sample_old))))"
    by code_simp
  have each: "list_all (\<lambda>u. distinct (map Addr (AddrInfoList u)))
     (Ports (fst (MakeDeviceNetworkStatus sample_os (77 * Second)
       (sample_config [''wlan9'', ''eth0'']) sample_old)))"
    by code_simp
  then have addrs: "\<forall>u \<in> set (Ports (fst (MakeDeviceNetworkStatus sample_os (77 * Second)
       (sample_config [''wlan9'', ''eth0'']) sample_old))).
      distinct (map Addr (AddrInfoList u))"
    by (simp only: list_all_iff)
  have still: "\<not> snd (UpdateDeviceNetworkGeo (sample_os\<lparr>MyIPWithOptions := (\<lambda>a. None)\<rparr>)
       (99 * Second) Second
       (fst (MakeDeviceNetworkStatus sample_os (77 * Second)
          (sample_config [''wlan9'', ''eth0'']) sample_old)))"
    by code_simp
  have geo: "map (\<lambda>u. map (\<lambda>ai. (IPInfo.IP (Geo ai), LastGeoTimestamp ai)) (AddrInfoList u))
     (Ports (fst (MakeDeviceNetworkStatus sample_os (77 * Second)
        (sample_config [''wlan9'', ''eth0'']) sample_old)))
     = [[], [(''192.0.2.1'', 0)]]"
    by code_simp
  show ?thesis
    using MakeDeviceNetworkStatus_twice_equal [OF quiet names addrs, of "\<lambda>a. None"]
      ok names each still geo
    by blast
qed

end
